theory Spec2Isabelle
  imports Complex_Main
begin

section \<open>JSON values\<close>

text \<open>
  Letter payloads and relay metrics are opaque JSON values to the ledger: it stores and
  hashes them and never looks inside.
\<close>

datatype json =
    JNull
  | JBool bool
  | JNum rat
  | JStr string
  | JArr "json list"
  | JObj "(string \<times> json) list"

section \<open>The block ledger (src/lib/blockchain.js, src/lib/crypto.js)\<close>

record letter =
  ownerFingerprint :: string
  payload :: json

text \<open>
  A block is an object with the keys \<open>index, timestamp, previousHash, letters,
  relayMetrics, summary, hash\<close>. The first six are the part that is hashed; the record
  extension adds \<open>hash\<close>, so that dropping the key (\<open>delete copy.hash\<close>) is the
  truncation of the extended record.
\<close>

record block_body =
  index :: int
  timestamp :: string
  previousHash :: "string option"
  letters :: "letter list"
  relayMetrics :: json
  summary :: string

record block = block_body +
  hash :: string

text \<open>
  \<open>hashPayload(payload) = sha256(JSON.stringify(payload))\<close> is a composition of two
  runtime library functions; it is a parameter of every definition that hashes.
\<close>

type_synonym hashPayload = "block_body \<Rightarrow> string"

text \<open>
  \<open>buildBlockHash(block)\<close>: copy the object, delete the key \<open>hash\<close>, hash the rest.
  It is applied to whole blocks and to objects that have no \<open>hash\<close> key.
\<close>

definition buildBlockHash :: "hashPayload \<Rightarrow> 'a block_body_scheme \<Rightarrow> string" where
  "buildBlockHash H b = H (block_body.truncate b)"

text \<open>\<open>createGenesisBlock()\<close>; the argument is the clock reading.\<close>

definition createGenesisBlock :: "hashPayload \<Rightarrow> string \<Rightarrow> block" where
  "createGenesisBlock H now =
     (let b = \<lparr> index = 0, timestamp = now, previousHash = None, letters = [],
                 relayMetrics = JObj [], summary = ''Genesis block'', hash = '''' \<rparr>
      in b\<lparr> hash := buildBlockHash H b \<rparr>)"

datatype reason =
    EmptyChain
  | HashMismatch int
  | BrokenLink int

datatype validation = Ok | Invalid reason

text \<open>
  The loop of \<open>validateChain\<close>, from position \<open>i\<close> on; the first argument is
  \<open>blocks[i - 1]\<close> when \<open>i > 0\<close>.
\<close>

fun validateFrom :: "hashPayload \<Rightarrow> block option \<Rightarrow> block list \<Rightarrow> validation" where
  "validateFrom H prev [] = Ok"
| "validateFrom H prev (b # bs) =
     (if buildBlockHash H (block_body.truncate b) \<noteq> hash b
        then Invalid (HashMismatch (index b))
      else if (case prev of None \<Rightarrow> False | Some p \<Rightarrow> previousHash b \<noteq> Some (hash p))
        then Invalid (BrokenLink (index b))
      else validateFrom H (Some b) bs)"

definition validateChain :: "hashPayload \<Rightarrow> block list \<Rightarrow> validation" where
  "validateChain H blocks =
     (if blocks = [] then Invalid EmptyChain else validateFrom H None blocks)"

datatype error =
    TypeError
  | RemoteChainInvalid reason
  | SyncBlocked "string option"
  | SyncUnavailable

text \<open>The \<open>statusCode\<close> property of a thrown error, when it has one.\<close>

fun statusCode :: "error \<Rightarrow> nat option" where
  "statusCode (SyncBlocked _) = Some 503"
| "statusCode SyncUnavailable = Some 503"
| "statusCode _ = None"

text \<open>
  The store of a \<open>BlockStore\<close> is the list of blocks in its file. Every operation
  returns its outcome (\<open>Inl\<close> the thrown error) and the store afterwards.
\<close>

definition init :: "hashPayload \<Rightarrow> string \<Rightarrow> block list \<Rightarrow> block list" where
  "init H now blocks = (if blocks = [] then [createGenesisBlock H now] else blocks)"

text \<open>
  Numbers are IEEE 754 doubles. A block index is an integer-valued double, held as its
  integer value, and \<open>previousBlock.index + 1\<close> is the exact sum rounded to the nearest
  double, ties to the even significand. \<open>ulpAt a\<close> is the distance between neighbouring
  doubles at the magnitude \<open>a\<close>: 1 below \<open>2^53\<close>, and doubling with every further binary
  digit.
\<close>

function ulpAt :: "int \<Rightarrow> int" where
  "ulpAt a = (if a < 2 ^ 53 then 1 else 2 * ulpAt (a div 2))"
  by pat_completeness auto
termination
  by (relation "measure nat") auto

declare ulpAt.simps [simp del]

definition roundToDouble :: "int \<Rightarrow> int" where
  "roundToDouble m =
     (let u = ulpAt \<bar>m\<bar>; q = m div u; r = m mod u
      in if 2 * r < u then q * u
         else if 2 * r > u then (q + 1) * u
         else if even q then q * u
         else (q + 1) * u)"

definition plusOne :: "int \<Rightarrow> int" where
  "plusOne n = roundToDouble (n + 1)"

text \<open>
  \<open>appendLetterBlock\<close>: on an empty store \<open>blocks[blocks.length - 1]\<close> is
  \<open>undefined\<close> and reading its \<open>index\<close> throws.
\<close>

definition appendLetterBlock ::
  "hashPayload \<Rightarrow> string \<Rightarrow> json \<Rightarrow> string \<Rightarrow> json \<Rightarrow> block list
     \<Rightarrow> (error + block) \<times> block list" where
  "appendLetterBlock H now letterPayload fp metrics blocks =
     (if blocks = [] then (Inl TypeError, blocks)
      else
        let previousBlock = last blocks;
            b = \<lparr> index = plusOne (index previousBlock),
                  timestamp = now,
                  previousHash = Some (hash previousBlock),
                  letters = [\<lparr> ownerFingerprint = fp, payload = letterPayload \<rparr>],
                  relayMetrics = metrics,
                  summary = ''Love letter for '' @ take 8 fp,
                  hash = '''' \<rparr>;
            b' = b\<lparr> hash := buildBlockHash H b \<rparr>
        in (Inr b', blocks @ [b']))"

record sync_result =
  updated :: bool
  message :: string

definition syncFromRemote ::
  "hashPayload \<Rightarrow> block list \<Rightarrow> bool \<Rightarrow> block list
     \<Rightarrow> (error + sync_result) \<times> block list" where
  "syncFromRemote H remoteBlocks force localBlocks =
     (case validateChain H remoteBlocks of
        Invalid r \<Rightarrow> (Inl (RemoteChainInvalid r), localBlocks)
      | Ok \<Rightarrow>
          if \<not> force \<and> length remoteBlocks \<le> length localBlocks
            then (Inr \<lparr> updated = False, message = ''Remote chain not longer than local'' \<rparr>,
                  localBlocks)
          else (Inr \<lparr> updated = True,
                       message = (if force then ''Chain replaced with remote copy (forced)''
                                  else ''Chain replaced with remote copy'') \<rparr>,
                remoteBlocks))"

text \<open>
  A stand-in for \<open>hashPayload\<close>, and a chain built with it, for evaluating the
  definitions on concrete inputs.
\<close>

definition sampleHash :: hashPayload where
  "sampleHash b = timestamp b @ ''/'' @ summary b"

definition sampleGenesis :: block where
  "sampleGenesis = createGenesisBlock sampleHash ''t0''"

text \<open>A block whose index is \<open>2^53\<close>; as a one-block chain it passes \<open>validateChain\<close>.\<close>

definition sampleBlockLimit :: block where
  "sampleBlockLimit = \<lparr> index = 9007199254740992, timestamp = ''t9'',
       previousHash = Some ''t8/Love letter for FP0'',
       letters = [\<lparr> ownerFingerprint = ''FP0'', payload = JStr ''ENV0'' \<rparr>],
       relayMetrics = JObj [], summary = ''Love letter for FP0'',
       hash = ''t9/Love letter for FP0'' \<rparr>"

definition sampleBlock1 :: block where
  "sampleBlock1 = \<lparr> index = 1, timestamp = ''t1'', previousHash = Some ''t0/Genesis block'',
       letters = [\<lparr> ownerFingerprint = ''FP1'', payload = JStr ''ENV1'' \<rparr>],
       relayMetrics = JObj [], summary = ''Love letter for FP1'',
       hash = ''t1/Love letter for FP1'' \<rparr>"

section \<open>Relay objects and the relay selector (src/lib/relaySelector.js)\<close>

text \<open>
  A chain summary (manifest) as a relay reports it. A key that is absent is \<open>None\<close>.
  The key \<open>length\<close> is the field \<open>length'\<close>.
\<close>

record manifest =
  length' :: "int option"
  hashes :: "string list option"
  checksum :: "string option"
  latestHash :: "string option"

text \<open>
  The value of the key \<open>chainSummary\<close> of a relay object, when the key is there:
  \<open>null\<close> or a manifest.
\<close>

datatype summary = NullSummary | Summary manifest

record comparison =
  matches :: bool
  missing :: "string list option"
  divergeAt :: "nat option"
  missingCount :: "nat option"

record sync_status =
  needsSync :: bool
  needsRepair :: bool
  details :: comparison

text \<open>
  A relay object, as the directory stores it, lists it, and as a heartbeat payload carries
  it. The keys that the code reads or writes are fields (\<open>None\<close>: the key is absent);
  the key \<open>id\<close> is the field \<open>id'\<close>; every other key is in \<open>other\<close>. The value
  \<open>null\<close> is modelled for \<open>chainSummary\<close>, the one key for which the code tests it.
\<close>

record relay =
  onion :: "string option"
  publicUrl :: "string option"
  latencyMs :: "rat option"
  reachability :: "rat option"
  chainFreshness :: "rat option"
  gfwBlocked :: "bool option"
  id' :: "string option"
  createdAt :: "string option"
  lastSeen :: "string option"
  fingerprint :: "string option"
  connectionMeta :: "(string \<rightharpoonup> json) option"
  chainSummary :: "summary option"
  syncStatus :: "sync_status option"
  other :: "string \<rightharpoonup> json"

text \<open>
  Numbers are IEEE 754 doubles. A finite double is held as its rational value, so that
  comparisons, \<open>Math.min\<close> and \<open>Math.max\<close> are the exact ones. The four arithmetic
  operations of the runtime, each of which rounds the exact result to a double, are
  parameters of the definitions that compute.
\<close>

record arith =
  fadd :: "rat \<Rightarrow> rat \<Rightarrow> rat"
  fsub :: "rat \<Rightarrow> rat \<Rightarrow> rat"
  fmul :: "rat \<Rightarrow> rat \<Rightarrow> rat"
  fdiv :: "rat \<Rightarrow> rat \<Rightarrow> rat"

text \<open>
  The literal \<open>0.2\<close> denotes the double nearest to one fifth. The other literals of
  \<open>scoreRelay\<close> (\<open>1500, 3000, 1, 0, 0.5, 0.25\<close>) are doubles themselves.
\<close>

definition pointTwo :: rat where
  "pointTwo = 3602879701896397 / 18014398509481984"

text \<open>
  \<open>scoreRelay(relay)\<close>; \<open>None\<close> is a missing relay (\<open>!relay\<close>). The operations are
  applied in the order of the source expression
  \<open>(latencyScore * 0.5 + reachabilityScore * 0.25 + freshnessScore * 0.25) * gfwPenalty\<close>.
  On finite fields none of them overflows: the latency score is at most about
  \<open>6e304\<close>, and a quarter of the largest double, twice, stays below the largest double.
\<close>

fun scoreRelay :: "arith \<Rightarrow> relay option \<Rightarrow> rat" where
  "scoreRelay A None = 0"
| "scoreRelay A (Some r) =
     (let latency = (case latencyMs r of None \<Rightarrow> 1500 | Some l \<Rightarrow> l);
          latencyScore = max 0 (fsub A 1 (fdiv A (min latency 3000) 3000));
          reachabilityScore = (case reachability r of None \<Rightarrow> 1 / 2 | Some x \<Rightarrow> x);
          freshnessScore = (case chainFreshness r of None \<Rightarrow> 1 / 2 | Some x \<Rightarrow> x);
          gfwPenalty = (if gfwBlocked r = Some True then pointTwo else 1)
      in fmul A
           (fadd A
              (fadd A (fmul A latencyScore (1 / 2)) (fmul A reachabilityScore (1 / 4)))
              (fmul A freshnessScore (1 / 4)))
           gfwPenalty)"

declare scoreRelay.simps [simp del]

text \<open>
  \<open>selectBestRelay(relays)\<close>: pair every relay with its score, sort with the comparator
  \<open>b.score - a.score\<close>, take element 0 (\<open>undefined\<close>, here \<open>None\<close>, of an empty array).
  The difference of two finite doubles is negative, zero or positive as the exact
  difference is (it may round, but never to zero or across it), so the comparator orders
  by descending score. \<open>Array.prototype.sort\<close> is stable; so is the insertion sort
  \<open>sort_key\<close>, and descending by score is ascending by the negated score.
\<close>

definition selectBestRelay :: "arith \<Rightarrow> relay list \<Rightarrow> relay option" where
  "selectBestRelay A relays =
     (case sort_key (\<lambda>e. - snd e) (map (\<lambda>r. (r, scoreRelay A (Some r))) relays) of
        [] \<Rightarrow> None
      | e # _ \<Rightarrow> Some (fst e))"

text \<open>
  The score as the specification words it: the same expression, with a latency that is
  missing or \<open>\<le> 0\<close> read as 1500 ms.
\<close>

definition specLatencyMs :: "relay \<Rightarrow> rat" where
  "specLatencyMs r =
     (case latencyMs r of None \<Rightarrow> 1500 | Some l \<Rightarrow> if l \<le> 0 then 1500 else l)"

definition specScore :: "arith \<Rightarrow> relay \<Rightarrow> rat" where
  "specScore A r =
     fmul A
       (fadd A
          (fadd A
             (fmul A (max 0 (fsub A 1 (fdiv A (min (specLatencyMs r) 3000) 3000))) (1 / 2))
             (fmul A (case reachability r of None \<Rightarrow> 1 / 2 | Some x \<Rightarrow> x) (1 / 4)))
          (fmul A (case chainFreshness r of None \<Rightarrow> 1 / 2 | Some x \<Rightarrow> x) (1 / 4)))
       (if gfwBlocked r = Some True then pointTwo else 1)"

definition emptyRelay :: relay where
  "emptyRelay = \<lparr> onion = None, publicUrl = None, latencyMs = None, reachability = None,
       chainFreshness = None, gfwBlocked = None, id' = None, createdAt = None,
       lastSeen = None, fingerprint = None, connectionMeta = None, chainSummary = None,
       syncStatus = None, other = Map.empty \<rparr>"

text \<open>
  Exact arithmetic, and two relays on which it is the arithmetic of the runtime: with
  the latencies 0 and 750 and the defaults 0.5, every intermediate result of
  \<open>scoreRelay\<close> (0, 0.25, 1, 0.75, 0.5, 0.375, 0.125, 0.625) is a double, so that no
  operation rounds.
\<close>

definition exactArith :: arith where
  "exactArith = \<lparr> fadd = (+), fsub = (-), fmul = (*), fdiv = (/) \<rparr>"

definition sampleRelayA :: relay where
  "sampleRelayA = emptyRelay\<lparr> onion := Some ''a'', latencyMs := Some 0 \<rparr>"

definition sampleRelayB :: relay where
  "sampleRelayB = emptyRelay\<lparr> onion := Some ''b'', latencyMs := Some 750 \<rparr>"

section \<open>The relay registry of the directory (modes/directory/state.js)\<close>

text \<open>
  The loop shared by \<open>compareManifests\<close> and \<open>detectChainConflict\<close>: walk two lists in
  lock-step up to the shorter length, from position \<open>i\<close>, and return the first position
  where they differ.
\<close>

fun firstDifference :: "'a list \<Rightarrow> 'a list \<Rightarrow> nat \<Rightarrow> nat option" where
  "firstDifference (a # as) (b # bs) i =
     (if a \<noteq> b then Some i else firstDifference as bs (Suc i))"
| "firstDifference _ _ i = None"

text \<open>
  Optional chaining \<open>candidate?.\<close>: an absent (\<open>undefined\<close>) and a \<open>null\<close> summary
  have no manifest.
\<close>

definition manifestOf :: "summary option \<Rightarrow> manifest option" where
  "manifestOf c = (case c of Some (Summary m) \<Rightarrow> Some m | _ \<Rightarrow> None)"

text \<open>\<open>m?.hashes\<close> with an absent list read as empty: \<open>!m?.hashes?.length\<close> is \<open>= []\<close>.\<close>

definition hashesOf :: "manifest option \<Rightarrow> string list" where
  "hashesOf m = (case m of None \<Rightarrow> [] | Some c \<Rightarrow> (case hashes c of None \<Rightarrow> [] | Some h \<Rightarrow> h))"

definition noComparison :: comparison where
  "noComparison = \<lparr> matches = True, missing = None, divergeAt = None, missingCount = None \<rparr>"

definition compareManifests :: "manifest \<Rightarrow> summary option \<Rightarrow> comparison" where
  "compareManifests canonical candidate =
     (if hashesOf (Some canonical) = [] then noComparison
      else if hashesOf (manifestOf candidate) = []
        then noComparison\<lparr> matches := False, missing := Some (hashesOf (Some canonical)) \<rparr>
      else
        (case firstDifference (hashesOf (Some canonical)) (hashesOf (manifestOf candidate)) 0 of
           Some i \<Rightarrow> noComparison\<lparr> matches := False, divergeAt := Some i \<rparr>
         | None \<Rightarrow>
             if length (hashesOf (manifestOf candidate)) < length (hashesOf (Some canonical))
               then noComparison\<lparr> matches := False,
                      missingCount := Some (length (hashesOf (Some canonical))
                                             - length (hashesOf (manifestOf candidate))) \<rparr>
             else noComparison))"

text \<open>\<open>m.length ?? 0\<close>.\<close>

definition lengthOr0 :: "manifest \<Rightarrow> int" where
  "lengthOr0 m = (case length' m of None \<Rightarrow> 0 | Some n \<Rightarrow> n)"

definition emptyManifest :: manifest where
  "emptyManifest = \<lparr> length' = None, hashes = None, checksum = None, latestHash = None \<rparr>"

text \<open>
  \<open>updateCanonicalManifest(currentManifest, candidateSummary = {})\<close>: an absent
  candidate is the empty object, and a \<open>null\<close> one (\<open>!candidateSummary\<close>) keeps the
  current manifest.
\<close>

definition updateCanonicalManifest :: "manifest \<Rightarrow> summary option \<Rightarrow> manifest" where
  "updateCanonicalManifest currentManifest candidateSummary =
     (case (case candidateSummary of None \<Rightarrow> Summary emptyManifest | Some c \<Rightarrow> c) of
        NullSummary \<Rightarrow> currentManifest
      | Summary c \<Rightarrow>
          if lengthOr0 c > lengthOr0 currentManifest then c else currentManifest)"

record directory_state =
  relays :: "relay list"
  canonicalManifest :: manifest

text \<open>Object spread \<open>{...e, ...p}\<close>: every key that \<open>p\<close> has wins.\<close>

fun orElse :: "'a option \<Rightarrow> 'a option \<Rightarrow> 'a option" where
  "orElse (Some v) _ = Some v"
| "orElse None d = d"

definition spread :: "relay \<Rightarrow> relay \<Rightarrow> relay" where
  "spread e p =
     \<lparr> onion = orElse (onion p) (onion e),
       publicUrl = orElse (publicUrl p) (publicUrl e),
       latencyMs = orElse (latencyMs p) (latencyMs e),
       reachability = orElse (reachability p) (reachability e),
       chainFreshness = orElse (chainFreshness p) (chainFreshness e),
       gfwBlocked = orElse (gfwBlocked p) (gfwBlocked e),
       id' = orElse (id' p) (id' e),
       createdAt = orElse (createdAt p) (createdAt e),
       lastSeen = orElse (lastSeen p) (lastSeen e),
       fingerprint = orElse (fingerprint p) (fingerprint e),
       connectionMeta = orElse (connectionMeta p) (connectionMeta e),
       chainSummary = orElse (chainSummary p) (chainSummary e),
       syncStatus = orElse (syncStatus p) (syncStatus e),
       other = other e ++ other p \<rparr>"

text \<open>\<open>{...m}\<close> of an object that may be absent.\<close>

definition objectOf :: "(string \<rightharpoonup> json) option \<Rightarrow> (string \<rightharpoonup> json)" where
  "objectOf m = (case m of None \<Rightarrow> Map.empty | Some f \<Rightarrow> f)"

text \<open>
  \<open>Boolean(comparison.missingCount)\<close> and
  \<open>comparison.matches === false && !comparison.missingCount\<close>.
\<close>

definition truthyCount :: "nat option \<Rightarrow> bool" where
  "truthyCount c = (case c of None \<Rightarrow> False | Some n \<Rightarrow> n \<noteq> 0)"

definition statusOf :: "comparison \<Rightarrow> sync_status" where
  "statusOf c = \<lparr> needsSync = truthyCount (missingCount c),
                  needsRepair = (\<not> matches c \<and> \<not> truthyCount (missingCount c)),
                  details = c \<rparr>"

text \<open>
  \<open>upsertRelay(payload)\<close>. The arguments \<open>now\<close> and \<open>generated\<close> are the clock reading
  and the value that \<open>generateFingerprint\<close> would return (it reads the clock and the
  random generator). The result is the relay object returned and the stored state.
\<close>

definition upsertRelay ::
  "string \<Rightarrow> string \<Rightarrow> relay \<Rightarrow> directory_state \<Rightarrow> relay \<times> directory_state" where
  "upsertRelay now generated p state =
     (let (existing, relays0) =
            (case find (\<lambda>r. onion r = onion p) (relays state) of
               Some e \<Rightarrow>
                 ((spread e p)\<lparr> connectionMeta :=
                                   Some (objectOf (connectionMeta e) ++ objectOf (connectionMeta p)),
                                 lastSeen := Some now \<rparr>,
                  relays state)
             | None \<Rightarrow>
                 (let resolvedFingerprint =
                        (case fingerprint p of
                           None \<Rightarrow> generated
                         | Some f \<Rightarrow> if f = [] then generated else f);
                      created =
                        (spread (emptyRelay\<lparr> id' := onion p, createdAt := Some now,
                                             lastSeen := Some now \<rparr>) p)
                          \<lparr> fingerprint := Some resolvedFingerprint \<rparr>
                  in (created, relays state @ [created])));
          canonical = updateCanonicalManifest (canonicalManifest state) (chainSummary existing);
          existing' = existing\<lparr> syncStatus :=
                         Some (statusOf (compareManifests canonical (chainSummary existing))) \<rparr>
      in (existing',
          \<lparr> relays = map (\<lambda>r. if onion r = onion existing' then existing' else r) relays0,
            canonicalManifest = canonical \<rparr>))"

text \<open>A sequence of upserts, each with its clock reading, generated fingerprint and payload.\<close>

fun upsertAll :: "(string \<times> string \<times> relay) list \<Rightarrow> directory_state \<Rightarrow> directory_state" where
  "upsertAll [] state = state"
| "upsertAll ((now, generated, p) # calls) state =
     upsertAll calls (snd (upsertRelay now generated p state))"

definition defaults :: directory_state where
  "defaults = \<lparr> relays = [],
       canonicalManifest = \<lparr> length' = Some 0, hashes = Some [], checksum = Some '''',
                             latestHash = Some '''' \<rparr> \<rparr>"

text \<open>
  "The hashes of the two manifests are equal up to the shorter length", as the
  specification words the comparison.
\<close>

definition agreeUpToShorter :: "string list \<Rightarrow> string list \<Rightarrow> bool" where
  "agreeUpToShorter ch rh =
     (take (min (length ch) (length rh)) ch = take (min (length ch) (length rh)) rh)"

text \<open>
  A registry whose canonical manifest has one block, a heartbeat of a relay that reports
  an empty chain, and a heartbeat as \<open>reportToDirectory\<close> builds it (it has no
  \<open>connectionMeta\<close>).
\<close>

definition sampleDirectory :: directory_state where
  "sampleDirectory = \<lparr> relays = [],
       canonicalManifest = \<lparr> length' = Some 1, hashes = Some [''h0''], checksum = Some ''c1'',
                             latestHash = Some ''h0'' \<rparr> \<rparr>"

definition sampleEmptyHeartbeat :: relay where
  "sampleEmptyHeartbeat = emptyRelay\<lparr> onion := Some ''r1.onion'', fingerprint := Some ''FP1'',
       chainSummary := Some (Summary \<lparr> length' = Some 0, hashes = Some [],
                               checksum = Some ''c0'', latestHash = None \<rparr>) \<rparr>"

definition sampleHeartbeat :: relay where
  "sampleHeartbeat = emptyRelay\<lparr> onion := Some ''r2.onion'',
       publicUrl := Some ''http://localhost:4700'', latencyMs := Some 120,
       reachability := Some (9 / 10), gfwBlocked := Some False, fingerprint := Some ''FP2'',
       chainSummary := Some (Summary \<lparr> length' = Some 1, hashes = Some [''h0''],
                               checksum = Some ''c1'', latestHash = Some ''h0'' \<rparr>) \<rparr>"

text \<open>
  The two branches of \<open>upsertRelay\<close> and its status step, named for the proofs: the
  object built when a relay with the payload's onion is found, the object built when
  none is, and the assignment of \<open>syncStatus\<close>.
\<close>

definition merged :: "string \<Rightarrow> relay \<Rightarrow> relay \<Rightarrow> relay" where
  "merged now e p = (spread e p)\<lparr> connectionMeta :=
                        Some (objectOf (connectionMeta e) ++ objectOf (connectionMeta p)),
                      lastSeen := Some now \<rparr>"

definition created :: "string \<Rightarrow> string \<Rightarrow> relay \<Rightarrow> relay" where
  "created now g p =
     (spread (emptyRelay\<lparr> id' := onion p, createdAt := Some now, lastSeen := Some now \<rparr>) p)
       \<lparr> fingerprint := Some (case fingerprint p of None \<Rightarrow> g
                                | Some f \<Rightarrow> if f = [] then g else f) \<rparr>"

definition withStatus :: "manifest \<Rightarrow> relay \<Rightarrow> relay" where
  "withStatus c r = r\<lparr> syncStatus := Some (statusOf (compareManifests
       (updateCanonicalManifest c (chainSummary r)) (chainSummary r))) \<rparr>"

text \<open>
  A heartbeat whose \<open>fingerprint\<close> is the empty string, and a registry that already
  holds a record of the relay \<open>r1.onion\<close>.
\<close>

definition sampleBlankFingerprint :: relay where
  "sampleBlankFingerprint = emptyRelay\<lparr> onion := Some ''r3.onion'', fingerprint := Some '''',
       connectionMeta := Some Map.empty \<rparr>"

definition sampleRegistered :: directory_state where
  "sampleRegistered = sampleDirectory\<lparr> relays := [sampleEmptyHeartbeat] \<rparr>"

section \<open>The relay write pipeline and sync engine (modes/relay/state.js)\<close>

text \<open>
  The relay configuration, as far as the pipeline reads it; the key \<open>onion\<close> is the field
  \<open>configOnion\<close>. An unset string (\<open>!value\<close>) is an absent or an empty one.
\<close>

record relay_config =
  directoryUrl :: "string option"
  configOnion :: "string option"

definition falsy :: "string option \<Rightarrow> bool" where
  "falsy s = (s = None \<or> s = Some [])"

text \<open>
  A pending entry. The keys \<open>id\<close>, \<open>ownerFingerprint\<close> and \<open>relayMetrics\<close> are the
  fields \<open>entryId\<close>, \<open>entryFingerprint\<close> and \<open>entryMetrics\<close>.
\<close>

record entry =
  entryId :: string
  letterPayload :: json
  entryFingerprint :: string
  entryMetrics :: json
  enqueuedAt :: string
  attempts :: nat
  replayedFromBlock :: "int option"

text \<open>The result of \<open>detectChainConflict\<close> (its \<open>divergeAt\<close> is \<open>conflictAt\<close>).\<close>

record conflict =
  conflictAt :: nat
  localBlocks :: "block list"
  orphanedBlocks :: "block list"
  localHeight :: nat
  remoteHeight :: nat
  shouldReplace :: bool

text \<open>The diagnostic \<open>lastConflictInfo\<close>.\<close>

record conflict_info =
  resolvedAt :: string
  infoDivergeAt :: nat
  infoLocalHeight :: nat
  infoRemoteHeight :: nat
  backupPath :: "string option"
  replayedLetters :: nat

text \<open>
  What \<open>syncFromDirectory\<close> returns: \<open>{skipped: true, reason?}\<close>, or
  \<open>{relay, conflict, updated, message}\<close>.
\<close>

datatype sync_outcome =
    Skipped "string option"
  | Synced "string option" "conflict_info option" sync_result

text \<open>
  The relay state: the configuration, the blocks of the active \<open>BlockStore\<close>, the pending
  queue, the ids that have a waiting submitter (\<open>queueDeferred\<close>), the submitters settled
  so far (resolved with a block or rejected with an error, in order), and the diagnostics.
\<close>

record relay_state =
  config :: relay_config
  blockStore :: "block list"
  pendingQueue :: "entry list"
  queueDeferred :: "string list"
  settled :: "(string \<times> (error + block)) list"
  lastConflictInfo :: "conflict_info option"
  lastSyncTime :: "string option"
  lastPreWriteSync :: "(string \<times> sync_outcome) option"
  lastQueueError :: "(error \<times> string) option"
  processingQueue :: bool

text \<open>
  What the outside world answers during one iteration of the queue worker: the clock, the
  relay list that \<open>fetchRelayManifest\<close> gets from the directory (empty when the request
  fails), the \<open>blocks\<close> of the peer's answer (\<open>None\<close> when the request fails or has no
  blocks), the path that \<open>snapshotConflictChain\<close> wrote (\<open>None\<close> when it failed), the
  ids that \<open>randomUUID\<close> draws, and the chain that the post-block report activates when
  the directory answers with another genesis (\<open>None\<close>: the active chain stays).
\<close>

record relay_env =
  clock :: string
  directoryRelays :: "relay list"
  remoteBlocks :: "block list option"
  snapshotPath :: "string option"
  newId :: "nat \<Rightarrow> string"
  switchedChain :: "block list option"

definition detectChainConflict :: "block list \<Rightarrow> block list \<Rightarrow> conflict option" where
  "detectChainConflict remote local =
     (if remote = [] then None
      else if local = [] then None
      else
        (case firstDifference (map hash local) (map hash remote) 0 of
           None \<Rightarrow> None
         | Some i \<Rightarrow>
             Some \<lparr> conflictAt = i, localBlocks = local, orphanedBlocks = drop i local,
                    localHeight = length local, remoteHeight = length remote,
                    shouldReplace = (length remote \<ge> length local) \<rparr>))"

text \<open>
  \<open>processQueueSoon\<close>: a no-op while the worker runs; otherwise it marks the worker as
  running and schedules \<open>drainQueue\<close>.
\<close>

definition processQueueSoon :: "relay_state \<Rightarrow> relay_state" where
  "processQueueSoon st = st\<lparr> processingQueue := True \<rparr>"

definition requeueOrphanedLetters ::
  "relay_env \<Rightarrow> block list \<Rightarrow> relay_state \<Rightarrow> nat \<times> relay_state" where
  "requeueOrphanedLetters env orphaned st =
     (let pairs = concat (map (\<lambda>b. map (\<lambda>l. (b, l)) (letters b)) orphaned);
          entries = map (\<lambda>(k, (b, l)).
                       \<lparr> entryId = newId env k,
                         letterPayload = payload l,
                         entryFingerprint = ownerFingerprint l,
                         entryMetrics = (if relayMetrics b = JNull then JObj [] else relayMetrics b),
                         enqueuedAt = clock env,
                         attempts = 0,
                         replayedFromBlock = Some (index b) \<rparr>)
                     (enumerate 0 pairs)
      in if entries = [] then (0, st)
         else (length entries,
               processQueueSoon (st\<lparr> pendingQueue := pendingQueue st @ entries \<rparr>)))"

definition syncFromDirectory ::
  "hashPayload \<Rightarrow> arith \<Rightarrow> relay_env \<Rightarrow> relay_state
     \<Rightarrow> (error + sync_outcome) \<times> relay_state" where
  "syncFromDirectory H A env st =
     (if falsy (directoryUrl (config st)) then (Inr (Skipped None), st)
      else
        (case selectBestRelay A (directoryRelays env) of
           None \<Rightarrow> (Inr (Skipped (Some ''No alternate relay available'')), st)
         | Some peer \<Rightarrow>
             if onion peer = configOnion (config st)
               then (Inr (Skipped (Some ''No alternate relay available'')), st)
             else if falsy (orElse (publicUrl peer) (onion peer))
               then (Inr (Skipped (Some ''Relay lacks URL'')), st)
             else
               (case remoteBlocks env of
                  None \<Rightarrow> (Inr (Skipped (Some ''Failed to fetch blocks'')), st)
                | Some remote \<Rightarrow>
                    let found = detectChainConflict remote (blockStore st);
                        force = (case found of None \<Rightarrow> False | Some c \<Rightarrow> shouldReplace c);
                        st1 = (case found of
                                 None \<Rightarrow> st
                               | Some c \<Rightarrow>
                                   if shouldReplace c
                                     then (let (n, sq) = requeueOrphanedLetters env
                                                           (orphanedBlocks c) st
                                           in sq\<lparr> lastConflictInfo :=
                                                  Some \<lparr> resolvedAt = clock env,
                                                         infoDivergeAt = conflictAt c,
                                                         infoLocalHeight = localHeight c,
                                                         infoRemoteHeight = remoteHeight c,
                                                         backupPath = snapshotPath env,
                                                         replayedLetters = n \<rparr> \<rparr>)
                                   else st)
                    in (case syncFromRemote H remote force (blockStore st1) of
                          (Inl e, _) \<Rightarrow> (Inl e, st1)
                        | (Inr res, blocks') \<Rightarrow>
                            (Inr (Synced (onion peer) (lastConflictInfo st1) res),
                             st1\<lparr> blockStore := blocks',
                                  lastSyncTime := Some (clock env) \<rparr>)))))"

text \<open>
  \<open>ensureFreshChainBeforeWrite\<close>. Without a directory it returns a skipped result. A
  skipped result of the sync engine, other than "No alternate relay available", and any
  error of the sync engine, become an error with \<open>statusCode = 503\<close>.
\<close>

definition ensureFreshChainBeforeWrite ::
  "hashPayload \<Rightarrow> arith \<Rightarrow> relay_env \<Rightarrow> relay_state
     \<Rightarrow> (error + sync_outcome) \<times> relay_state" where
  "ensureFreshChainBeforeWrite H A env st =
     (if falsy (directoryUrl (config st))
        then (Inr (Skipped (Some ''No directory configured'')), st)
      else
        (case syncFromDirectory H A env st of
           (Inr result, st1) \<Rightarrow>
             (let st2 = st1\<lparr> lastPreWriteSync := Some (clock env, result) \<rparr>
              in case result of
                   Skipped why \<Rightarrow>
                     if why \<noteq> Some ''No alternate relay available''
                       then (Inl (SyncBlocked why), st2)
                     else (Inr result, st2)
                 | Synced _ _ _ \<Rightarrow> (Inr result, st2))
         | (Inl e, st1) \<Rightarrow>
             if statusCode e = Some 503 then (Inl e, st1) else (Inl SyncUnavailable, st1)))"

text \<open>
  \<open>reportToDirectory\<close>, as far as it touches the ledger: with a directory configured, an
  answer that names another genesis switches the active chain.
\<close>

definition reportToDirectory :: "relay_env \<Rightarrow> relay_state \<Rightarrow> relay_state" where
  "reportToDirectory env st =
     (if falsy (directoryUrl (config st)) then st
      else (case switchedChain env of None \<Rightarrow> st | Some c \<Rightarrow> st\<lparr> blockStore := c \<rparr>))"

text \<open>
  \<open>processQueueEntry(this.pendingQueue[0])\<close>: the entry is the object at the head of the
  queue, so incrementing its \<open>attempts\<close> changes the queue.
\<close>

definition processQueueEntry ::
  "hashPayload \<Rightarrow> arith \<Rightarrow> relay_env \<Rightarrow> relay_state
     \<Rightarrow> (error + block) \<times> relay_state" where
  "processQueueEntry H A env st =
     (case pendingQueue st of
        [] \<Rightarrow> (Inl TypeError, st)
      | e # rest \<Rightarrow>
          let st0 = st\<lparr> pendingQueue := e\<lparr> attempts := attempts e + 1 \<rparr> # rest \<rparr>
          in (case ensureFreshChainBeforeWrite H A env st0 of
                (Inl err, st1) \<Rightarrow> (Inl err, st1)
              | (Inr _, st1) \<Rightarrow>
                  (case appendLetterBlock H (clock env) (letterPayload e) (entryFingerprint e)
                          (entryMetrics e) (blockStore st1) of
                     (Inl err, _) \<Rightarrow> (Inl err, st1)
                   | (Inr b, blocks') \<Rightarrow>
                       (Inr b, reportToDirectory env (st1\<lparr> blockStore := blocks' \<rparr>)))))"

definition resolveQueueEntry :: "string \<Rightarrow> block \<Rightarrow> relay_state \<Rightarrow> relay_state" where
  "resolveQueueEntry i b st =
     (if i \<in> set (queueDeferred st)
        then st\<lparr> settled := settled st @ [(i, Inr b)],
                 queueDeferred := removeAll i (queueDeferred st) \<rparr>
      else st)"

definition rejectQueueEntry :: "string \<Rightarrow> error \<Rightarrow> relay_state \<Rightarrow> relay_state" where
  "rejectQueueEntry i err st =
     (if i \<in> set (queueDeferred st)
        then st\<lparr> settled := settled st @ [(i, Inl err)],
                 queueDeferred := removeAll i (queueDeferred st) \<rparr>
      else st)"

text \<open>
  One iteration of the loop of \<open>drainQueue\<close>: \<open>error?.retryable || error?.statusCode
  === 503\<close>, and no error of the pipeline has a \<open>retryable\<close> property.
\<close>

definition drainStep ::
  "hashPayload \<Rightarrow> arith \<Rightarrow> relay_env \<Rightarrow> relay_state \<Rightarrow> relay_state" where
  "drainStep H A env st =
     (case pendingQueue st of
        [] \<Rightarrow> st\<lparr> processingQueue := False \<rparr>
      | e # _ \<Rightarrow>
          (case processQueueEntry H A env st of
             (Inr b, st1) \<Rightarrow>
               resolveQueueEntry (entryId e) b (st1\<lparr> pendingQueue := tl (pendingQueue st1) \<rparr>)
           | (Inl err, st1) \<Rightarrow>
               let st2 = st1\<lparr> lastQueueError := Some (err, clock env) \<rparr>
               in if statusCode err = Some 503 then st2
                  else rejectQueueEntry (entryId e) err
                         (st2\<lparr> pendingQueue := tl (pendingQueue st2) \<rparr>)))"


text \<open>
  \<open>acceptLetter\<close> (\<open>enqueueLetter\<close>): the first two arguments are the id drawn and the
  clock reading. The promise returned is the submitter registered under the id.
\<close>

definition acceptLetter ::
  "string \<Rightarrow> string \<Rightarrow> json \<Rightarrow> string \<Rightarrow> json \<Rightarrow> relay_state \<Rightarrow> relay_state" where
  "acceptLetter i now p fp metrics st =
     processQueueSoon
       (st\<lparr> pendingQueue := pendingQueue st @
               [\<lparr> entryId = i, letterPayload = p, entryFingerprint = fp, entryMetrics = metrics,
                  enqueuedAt = now, attempts = 0, replayedFromBlock = None \<rparr>],
            queueDeferred := queueDeferred st @ [i] \<rparr>)"

text \<open>
  A relay with only the genesis block and an idle queue, with and without a directory,
  and an outside world in which the directory lists no relay.
\<close>

definition sampleRelayState :: relay_state where
  "sampleRelayState =
     \<lparr> config = \<lparr> directoryUrl = Some ''http://localhost:4600'',
                   configOnion = Some ''relay.local'' \<rparr>,
       blockStore = [sampleGenesis], pendingQueue = [], queueDeferred = [], settled = [],
       lastConflictInfo = None, lastSyncTime = None, lastPreWriteSync = None,
       lastQueueError = None, processingQueue = False \<rparr>"

definition sampleStandalone :: relay_state where
  "sampleStandalone =
     sampleRelayState\<lparr> config := \<lparr> directoryUrl = None, configOnion = Some ''relay.local'' \<rparr> \<rparr>"

definition sampleEnv :: relay_env where
  "sampleEnv = \<lparr> clock = ''t1'', directoryRelays = [], remoteBlocks = None,
                 snapshotPath = None, newId = (\<lambda>k. ''id''), switchedChain = None \<rparr>"

text \<open>
  An outside world in which the directory lists one other relay, whose answer holds an
  empty block list.
\<close>

definition sampleEmptyPeerEnv :: relay_env where
  "sampleEmptyPeerEnv =
     sampleEnv\<lparr> directoryRelays := [sampleRelayB\<lparr> publicUrl := Some ''http://b.example'' \<rparr>],
                remoteBlocks := Some [] \<rparr>"

text \<open>The scenario "fresh relay receives first letter": the entry and the two relays after \<open>acceptLetter\<close>.\<close>

definition sampleEntry :: entry where
  "sampleEntry = \<lparr> entryId = ''id1'', letterPayload = JStr ''ENV1'', entryFingerprint = ''FP1'',
       entryMetrics = JObj [], enqueuedAt = ''t0b'', attempts = 0, replayedFromBlock = None \<rparr>"

definition sampleSubmitted :: relay_state where
  "sampleSubmitted = acceptLetter ''id1'' ''t0b'' (JStr ''ENV1'') ''FP1'' (JObj []) sampleRelayState"

definition sampleStandaloneSubmitted :: relay_state where
  "sampleStandaloneSubmitted =
     acceptLetter ''id1'' ''t0b'' (JStr ''ENV1'') ''FP1'' (JObj []) sampleStandalone"

text \<open>A registry whose canonical manifest has two blocks.\<close>

definition sampleLongDirectory :: directory_state where
  "sampleLongDirectory = \<lparr> relays = [],
       canonicalManifest = \<lparr> length' = Some 2, hashes = Some [''h0'', ''h1''],
                             checksum = Some ''c2'', latestHash = Some ''h1'' \<rparr> \<rparr>"

section \<open>Ledger theorems\<close>

lemma buildBlockHash_hash_update:
  "buildBlockHash H (b\<lparr> hash := h \<rparr>) = buildBlockHash H (block_body.truncate b)"
  by (simp add: buildBlockHash_def block_body.truncate_def)

lemma validateChain_single:
  "validateChain H [b] = (if buildBlockHash H (block_body.truncate b) = hash b then Ok
                          else Invalid (HashMismatch (index b)))"
  by (simp add: validateChain_def)

lemma sampleGenesis_eq:
  "sampleGenesis = \<lparr> index = 0, timestamp = ''t0'', previousHash = None, letters = [],
       relayMetrics = JObj [], summary = ''Genesis block'', hash = ''t0/Genesis block'' \<rparr>"
  by (simp add: sampleGenesis_def createGenesisBlock_def buildBlockHash_def sampleHash_def
      block_body.truncate_def)

lemma sample_chain_valid: "validateChain sampleHash [sampleGenesis, sampleBlock1] = Ok"
  by (simp add: validateChain_def sampleGenesis_eq sampleBlock1_def buildBlockHash_def
      sampleHash_def block_body.truncate_def)

text \<open>
  C10. \<open>buildBlockHash\<close> does not read the stored \<open>hash\<close>: two blocks that differ only
  in \<open>hash\<close> have the same block hash. Hence the genesis block, whose \<open>hash\<close> is set
  from the block built with \<open>hash = ''\<close>, satisfies \<open>hash = buildBlockHash(block)\<close>, and
  the one-block chain that \<open>init\<close> writes into an empty store passes \<open>validateChain\<close>.
\<close>

theorem buildBlockHash_independent_of_hash:
  "buildBlockHash H (b\<lparr> hash := h1 \<rparr>) = buildBlockHash H (b\<lparr> hash := h2 \<rparr>)
   \<and> hash (createGenesisBlock H now) = buildBlockHash H (createGenesisBlock H now)
   \<and> validateChain H (init H now []) = Ok"
proof -
  have indep: "buildBlockHash H (b\<lparr> hash := h1 \<rparr>) = buildBlockHash H (b\<lparr> hash := h2 \<rparr>)"
    by (simp only: buildBlockHash_hash_update)
  have fixed: "hash (createGenesisBlock H now) = buildBlockHash H (createGenesisBlock H now)"
    by (simp add: createGenesisBlock_def Let_def buildBlockHash_def block_body.truncate_def)
  have "buildBlockHash H (block_body.truncate (createGenesisBlock H now))
          = buildBlockHash H (createGenesisBlock H now)"
    by (simp add: buildBlockHash_def block_body.truncate_def)
  with fixed have "validateChain H [createGenesisBlock H now] = Ok"
    by (simp add: validateChain_single)
  then have "validateChain H (init H now []) = Ok"
    by (simp add: init_def)
  with indep fixed show ?thesis by blast
qed

lemma ulpAt_small: "a < 2 ^ 53 \<Longrightarrow> ulpAt a = 1"
  by (subst ulpAt.simps) simp

lemma ulpAt_next: "2 ^ 53 \<le> a \<Longrightarrow> a < 2 ^ 54 \<Longrightarrow> ulpAt a = 2"
  by (subst ulpAt.simps) (simp add: ulpAt_small)

lemma roundToDouble_small: "\<bar>m\<bar> \<le> 2 ^ 53 \<Longrightarrow> roundToDouble m = m"
proof -
  assume a: "\<bar>m\<bar> \<le> 2 ^ 53"
  show ?thesis
  proof (cases "\<bar>m\<bar> < 2 ^ 53")
    case True
    then have "ulpAt \<bar>m\<bar> = 1" by (rule ulpAt_small)
    then show ?thesis by (simp add: roundToDouble_def)
  next
    case False
    with a have m: "\<bar>m\<bar> = 2 ^ 53" by simp
    then have u: "ulpAt \<bar>m\<bar> = 2" by (simp add: ulpAt_next)
    from m have "m = 2 ^ 53 \<or> m = - (2 ^ 53)" by linarith
    then have "m mod 2 = 0 \<and> m div 2 * 2 = m" by auto
    then show ?thesis by (simp add: roundToDouble_def u Let_def)
  qed
qed

lemma plusOne_safe: "\<bar>n\<bar> < 2 ^ 53 \<Longrightarrow> plusOne n = n + 1"
  unfolding plusOne_def by (rule roundToDouble_small) simp

lemma plusOne_at_limit: "plusOne 9007199254740992 = 9007199254740992"
  by (simp add: plusOne_def roundToDouble_def ulpAt_next)

text \<open>
  C1, as stated, fails on a chain whose last block has the index \<open>2^53\<close>: the chain
  passes \<open>validateChain\<close>, and the appended block gets the index \<open>2^53\<close> again, since
  \<open>2^53 + 1\<close> is not a double and the sum rounds to \<open>2^53\<close>.
\<close>

theorem appendLetterBlock_index_counterexample:
  "validateChain sampleHash [sampleBlockLimit] = Ok
   \<and> map index (snd (appendLetterBlock sampleHash ''t10'' (JStr ''ENV1'') ''FP1'' (JObj [])
                       [sampleBlockLimit]))
       = [9007199254740992, 9007199254740992]
   \<and> index (last (snd (appendLetterBlock sampleHash ''t10'' (JStr ''ENV1'') ''FP1'' (JObj [])
                         [sampleBlockLimit])))
       \<noteq> index sampleBlockLimit + 1"
  by (simp add: validateChain_def appendLetterBlock_def sampleBlockLimit_def buildBlockHash_def
      sampleHash_def block_body.truncate_def Let_def plusOne_at_limit)

text \<open>
  C1, amended. On a chain that ends in \<open>prev\<close>, where \<open>prev.index\<close> is a safe integer
  (\<open>|prev.index| < 2^53\<close>), \<open>appendLetterBlock\<close> returns a block and the store becomes
  the old chain followed by exactly that block. The block has \<open>index = prev.index + 1\<close>,
  \<open>previousHash = prev.hash\<close>, the single letter \<open>{ownerFingerprint, payload:
  letterPayload}\<close>, and \<open>hash = buildBlockHash(block)\<close>.
\<close>

theorem appendLetterBlock_appends_one:
  assumes "\<bar>index prev\<bar> < 2 ^ 53"
  shows "\<exists>b. appendLetterBlock H now lp fp metrics (earlier @ [prev])
           = (Inr b, (earlier @ [prev]) @ [b])
      \<and> index b = index prev + 1
      \<and> previousHash b = Some (hash prev)
      \<and> letters b = [\<lparr> ownerFingerprint = fp, payload = lp \<rparr>]
      \<and> hash b = buildBlockHash H b"
  using plusOne_safe [OF assms]
  by (simp add: appendLetterBlock_def Let_def buildBlockHash_def block_body.truncate_def)

lemma sample_append:
  "appendLetterBlock sampleHash ''t1'' (JStr ''ENV1'') ''FP1'' (JObj []) [sampleGenesis]
     = (Inr sampleBlock1, [sampleGenesis, sampleBlock1])"
  by (simp add: appendLetterBlock_def sampleGenesis_eq sampleBlock1_def buildBlockHash_def
      sampleHash_def block_body.truncate_def Let_def plusOne_safe)

theorem appendLetterBlock_appends_one_witness:
  "\<bar>index sampleGenesis\<bar> < 2 ^ 53
   \<and> appendLetterBlock sampleHash ''t1'' (JStr ''ENV1'') ''FP1'' (JObj []) ([] @ [sampleGenesis])
       = (Inr sampleBlock1, [sampleGenesis, sampleBlock1])
   \<and> index sampleBlock1 = index sampleGenesis + 1"
proof -
  have h: "\<bar>index sampleGenesis\<bar> < 2 ^ 53"
    by (simp add: sampleGenesis_eq)
  from appendLetterBlock_appends_one [OF h, of sampleHash "''t1''" "JStr ''ENV1''" "''FP1''"
         "JObj []" "[]"]
  obtain b where
    "appendLetterBlock sampleHash ''t1'' (JStr ''ENV1'') ''FP1'' (JObj []) ([] @ [sampleGenesis])
       = (Inr b, ([] @ [sampleGenesis]) @ [b])"
    and "index b = index sampleGenesis + 1"
    by blast
  with h show ?thesis by (simp add: sample_append)
qed

text \<open>
  C3. For a remote chain \<open>r\<close> that passes \<open>validateChain\<close>: without \<open>force\<close>,
  \<open>syncFromRemote\<close> leaves the store as it is and returns \<open>updated = false\<close> when
  \<open>|r| \<le> |local|\<close>, and makes the store exactly \<open>r\<close> and returns \<open>updated = true\<close>
  when \<open>|r| > |local|\<close>; with \<open>force\<close> the store becomes \<open>r\<close> whatever the lengths.
\<close>

theorem syncFromRemote_valid:
  assumes "validateChain H r = Ok"
  shows "(length r \<le> length L \<longrightarrow>
            syncFromRemote H r False L
              = (Inr \<lparr> updated = False, message = ''Remote chain not longer than local'' \<rparr>, L))
       \<and> (length r > length L \<longrightarrow>
            syncFromRemote H r False L
              = (Inr \<lparr> updated = True, message = ''Chain replaced with remote copy'' \<rparr>, r))
       \<and> syncFromRemote H r True L
              = (Inr \<lparr> updated = True, message = ''Chain replaced with remote copy (forced)'' \<rparr>, r)"
  using assms by (simp add: syncFromRemote_def)

theorem syncFromRemote_valid_witness:
  "validateChain sampleHash [sampleGenesis, sampleBlock1] = Ok
   \<and> syncFromRemote sampleHash [sampleGenesis, sampleBlock1] False [sampleGenesis]
       = (Inr \<lparr> updated = True, message = ''Chain replaced with remote copy'' \<rparr>,
          [sampleGenesis, sampleBlock1])
   \<and> syncFromRemote sampleHash [sampleGenesis, sampleBlock1] False
         [sampleGenesis, sampleBlock1]
       = (Inr \<lparr> updated = False, message = ''Remote chain not longer than local'' \<rparr>,
          [sampleGenesis, sampleBlock1])
   \<and> syncFromRemote sampleHash [sampleGenesis, sampleBlock1] True
         [sampleGenesis, sampleBlock1]
       = (Inr \<lparr> updated = True, message = ''Chain replaced with remote copy (forced)'' \<rparr>,
          [sampleGenesis, sampleBlock1])"
  using syncFromRemote_valid [OF sample_chain_valid, of "[sampleGenesis]"]
        syncFromRemote_valid [OF sample_chain_valid, of "[sampleGenesis, sampleBlock1]"]
        sample_chain_valid
  by simp

section \<open>Selector theorems\<close>

lemma hd_insort_key:
  "hd (insort_key f x ys) = (if ys = [] \<or> f x \<le> f (hd ys) then x else hd ys)"
  by (cases ys) auto

lemma sort_key_Nil_iff: "sort_key f xs = [] \<longleftrightarrow> xs = []"
  by (metis length_sort list.size(3) length_0_conv)

lemma hd_sort_key_first_min:
  "xs \<noteq> [] \<Longrightarrow> \<exists>i<length xs. hd (sort_key f xs) = xs ! i
      \<and> (\<forall>j<length xs. f (xs ! i) \<le> f (xs ! j)) \<and> (\<forall>j<i. f (xs ! i) < f (xs ! j))"
proof (induction xs)
  case Nil
  then show ?case by simp
next
  case (Cons x xs)
  show ?case
  proof (cases "xs = []")
    case True
    then show ?thesis by simp
  next
    case False
    from Cons.IH [OF False] obtain i where i: "i < length xs"
      and hd: "hd (sort_key f xs) = xs ! i"
      and le: "\<forall>j<length xs. f (xs ! i) \<le> f (xs ! j)"
      and lt: "\<forall>j<i. f (xs ! i) < f (xs ! j)" by blast
    have ne: "sort_key f xs \<noteq> []" using False by (simp add: sort_key_Nil_iff)
    show ?thesis
    proof (cases "f x \<le> f (xs ! i)")
      case True
      have "hd (sort_key f (x # xs)) = (x # xs) ! 0"
        using True hd ne by (simp add: hd_insort_key)
      moreover have "\<forall>j<length (x # xs). f ((x # xs) ! 0) \<le> f ((x # xs) ! j)"
      proof (intro allI impI)
        fix j assume "j < length (x # xs)"
        then show "f ((x # xs) ! 0) \<le> f ((x # xs) ! j)"
          using True le by (cases j) (auto intro: order_trans)
      qed
      ultimately show ?thesis by (intro exI [of _ 0]) simp
    next
      case False
      then have gt: "f (xs ! i) < f x" by simp
      have "hd (sort_key f (x # xs)) = (x # xs) ! Suc i"
        using False hd ne by (simp add: hd_insort_key)
      moreover have "\<forall>j<length (x # xs). f ((x # xs) ! Suc i) \<le> f ((x # xs) ! j)"
      proof (intro allI impI)
        fix j assume "j < length (x # xs)"
        then show "f ((x # xs) ! Suc i) \<le> f ((x # xs) ! j)"
          using gt le by (cases j) auto
      qed
      moreover have "\<forall>j<Suc i. f ((x # xs) ! Suc i) < f ((x # xs) ! j)"
      proof (intro allI impI)
        fix j assume "j < Suc i"
        then show "f ((x # xs) ! Suc i) < f ((x # xs) ! j)"
          using gt lt by (cases j) auto
      qed
      ultimately show ?thesis using i by (intro exI [of _ "Suc i"]) simp
    qed
  qed
qed


lemma sample_scores:
  "scoreRelay exactArith (Some sampleRelayA) = 3 / 4"
  "scoreRelay exactArith (Some sampleRelayB) = 5 / 8"
  "specScore exactArith sampleRelayA = 1 / 2"
  "specScore exactArith sampleRelayB = 5 / 8"
  by (simp_all add: scoreRelay.simps sampleRelayA_def sampleRelayB_def emptyRelay_def
      specScore_def specLatencyMs_def exactArith_def)

text \<open>
  C7, as stated, fails: the code reads a latency of 0 (or below) as it is, not as
  1500 ms. Of the two relays below, with \<open>latencyMs\<close> 0 and 750 and nothing else, the
  code selects the first (scores 0.75 and 0.625), which is not the one that maximises
  the score of the specification (0.5 and 0.625).
\<close>

theorem selectBestRelay_spec_counterexample:
  "selectBestRelay exactArith [sampleRelayA, sampleRelayB] = Some sampleRelayA
   \<and> scoreRelay exactArith (Some sampleRelayA) = 3 / 4
   \<and> scoreRelay exactArith (Some sampleRelayB) = 5 / 8
   \<and> specScore exactArith sampleRelayA = 1 / 2
   \<and> specScore exactArith sampleRelayB = 5 / 8"
  by (simp add: selectBestRelay_def sample_scores)

text \<open>
  C7, amended. \<open>selectBestRelay\<close> returns none for the empty list, and otherwise the
  first relay, in input order, whose score is the maximum, where the score is computed
  in double arithmetic as
  \<open>(latencyScore * 0.5 + reachabilityScore * 0.25 + freshnessScore * 0.25) * gfwPenalty\<close>,
  \<open>latencyScore = max(0, 1 - min(latencyMs, 3000)/3000)\<close> with \<open>latencyMs\<close> read as
  1500 only when it is missing, reachability and freshness default to 0.5, and the
  penalty is 0.2 when \<open>gfwBlocked\<close> and 1 otherwise. Being a function of the list, it
  returns the same relay on the same list.
\<close>

theorem selectBestRelay_first_maximum:
  "selectBestRelay A [] = None
   \<and> (rs \<noteq> [] \<longrightarrow>
        (\<exists>i<length rs. selectBestRelay A rs = Some (rs ! i)
           \<and> (\<forall>j<length rs. scoreRelay A (Some (rs ! j)) \<le> scoreRelay A (Some (rs ! i)))
           \<and> (\<forall>j<i. scoreRelay A (Some (rs ! j)) < scoreRelay A (Some (rs ! i)))))
   \<and> scoreRelay A (Some r) =
        fmul A
          (fadd A
             (fadd A
                (fmul A (max 0 (fsub A 1 (fdiv A
                     (min (case latencyMs r of None \<Rightarrow> 1500 | Some l \<Rightarrow> l) 3000) 3000)))
                   (1 / 2))
                (fmul A (case reachability r of None \<Rightarrow> 1 / 2 | Some x \<Rightarrow> x) (1 / 4)))
             (fmul A (case chainFreshness r of None \<Rightarrow> 1 / 2 | Some x \<Rightarrow> x) (1 / 4)))
          (if gfwBlocked r = Some True then pointTwo else 1)"
proof -
  have empty: "selectBestRelay A [] = None"
    by (simp add: selectBestRelay_def)
  have best: "\<exists>i<length rs. selectBestRelay A rs = Some (rs ! i)
           \<and> (\<forall>j<length rs. scoreRelay A (Some (rs ! j)) \<le> scoreRelay A (Some (rs ! i)))
           \<and> (\<forall>j<i. scoreRelay A (Some (rs ! j)) < scoreRelay A (Some (rs ! i)))"
    if ne: "rs \<noteq> []"
  proof -
    let ?ps = "map (\<lambda>r. (r, scoreRelay A (Some r))) rs"
    let ?f = "\<lambda>e :: relay \<times> rat. - snd e"
    have pne: "?ps \<noteq> []" using ne by simp
    from hd_sort_key_first_min [OF pne, of ?f] obtain i where i: "i < length ?ps"
      and hd: "hd (sort_key ?f ?ps) = ?ps ! i"
      and le: "\<forall>j<length ?ps. ?f (?ps ! i) \<le> ?f (?ps ! j)"
      and lt: "\<forall>j<i. ?f (?ps ! i) < ?f (?ps ! j)" by blast
    have sne: "sort_key ?f ?ps \<noteq> []" using pne by (simp add: sort_key_Nil_iff)
    have "selectBestRelay A rs = Some (fst (hd (sort_key ?f ?ps)))"
      using sne by (cases "sort_key ?f ?ps") (simp_all add: selectBestRelay_def)
    with hd i have sel: "selectBestRelay A rs = Some (rs ! i)" by simp
    have "\<forall>j<length rs. scoreRelay A (Some (rs ! j)) \<le> scoreRelay A (Some (rs ! i))"
      using le i by simp
    moreover have "\<forall>j<i. scoreRelay A (Some (rs ! j)) < scoreRelay A (Some (rs ! i))"
      using lt i by simp
    ultimately show ?thesis using sel i by auto
  qed
  have formula: "scoreRelay A (Some r) =
        fmul A
          (fadd A
             (fadd A
                (fmul A (max 0 (fsub A 1 (fdiv A
                     (min (case latencyMs r of None \<Rightarrow> 1500 | Some l \<Rightarrow> l) 3000) 3000)))
                   (1 / 2))
                (fmul A (case reachability r of None \<Rightarrow> 1 / 2 | Some x \<Rightarrow> x) (1 / 4)))
             (fmul A (case chainFreshness r of None \<Rightarrow> 1 / 2 | Some x \<Rightarrow> x) (1 / 4)))
          (if gfwBlocked r = Some True then pointTwo else 1)"
    by (simp add: scoreRelay.simps Let_def)
  from empty best formula show ?thesis by blast
qed

theorem selectBestRelay_first_maximum_witness:
  "[sampleRelayB, sampleRelayA, sampleRelayA] \<noteq> []
   \<and> selectBestRelay exactArith [sampleRelayB, sampleRelayA, sampleRelayA] = Some sampleRelayA
   \<and> scoreRelay exactArith (Some sampleRelayB) < scoreRelay exactArith (Some sampleRelayA)"
  using selectBestRelay_first_maximum
          [of exactArith "[sampleRelayB, sampleRelayA, sampleRelayA]" sampleRelayA]
  by (simp add: selectBestRelay_def sample_scores)

section \<open>Registry theorems\<close>

lemma updateCanonicalManifest_length:
  "lengthOr0 c \<le> lengthOr0 (updateCanonicalManifest c m)"
  by (simp add: updateCanonicalManifest_def split: option.splits summary.splits)

lemma updateCanonicalManifest_twice:
  "updateCanonicalManifest (updateCanonicalManifest c m) m = updateCanonicalManifest c m"
  by (simp add: updateCanonicalManifest_def split: option.splits summary.splits)

lemma upsertRelay_canonical:
  "canonicalManifest (snd (upsertRelay now g p st))
     = updateCanonicalManifest (canonicalManifest st) (chainSummary (fst (upsertRelay now g p st)))"
  by (simp add: upsertRelay_def Let_def split: option.splits prod.splits)

lemma upsertRelay_syncStatus:
  "syncStatus (fst (upsertRelay now g p st))
     = Some (statusOf (compareManifests (canonicalManifest (snd (upsertRelay now g p st)))
                          (chainSummary (fst (upsertRelay now g p st)))))"
  by (simp add: upsertRelay_def Let_def split: option.splits prod.splits)

lemma upsertAll_canonical_length:
  "lengthOr0 (canonicalManifest st) \<le> lengthOr0 (canonicalManifest (upsertAll calls st))"
proof (induction calls arbitrary: st)
  case Nil
  then show ?case by simp
next
  case (Cons c calls)
  obtain now g p where c: "c = (now, g, p)" by (cases c)
  have "lengthOr0 (canonicalManifest st)
          \<le> lengthOr0 (canonicalManifest (snd (upsertRelay now g p st)))"
    by (simp add: upsertRelay_canonical updateCanonicalManifest_length)
  also have "\<dots> \<le> lengthOr0 (canonicalManifest (upsertAll calls (snd (upsertRelay now g p st))))"
    by (rule Cons.IH)
  finally show ?case by (simp add: c)
qed

text \<open>
  C6. Across any sequence of \<open>upsertRelay\<close> calls the length of the canonical manifest
  does not decrease; and one call replaces the canonical manifest by the relay's reported
  \<open>chainSummary\<close> exactly when the reported length (\<open>length ?? 0\<close>, an absent summary
  being the empty object) is strictly greater than the current canonical length, and
  leaves it as it is otherwise, as it does for a \<open>null\<close> summary.
\<close>

theorem canonical_manifest_monotone:
  "lengthOr0 (canonicalManifest st) \<le> lengthOr0 (canonicalManifest (upsertAll calls st))
   \<and> canonicalManifest (snd (upsertRelay now g p st))
       = (case chainSummary (fst (upsertRelay now g p st)) of
            Some NullSummary \<Rightarrow> canonicalManifest st
          | Some (Summary reported) \<Rightarrow>
              if lengthOr0 reported > lengthOr0 (canonicalManifest st) then reported
              else canonicalManifest st
          | None \<Rightarrow>
              if lengthOr0 emptyManifest > lengthOr0 (canonicalManifest st) then emptyManifest
              else canonicalManifest st)"
  by (simp add: upsertAll_canonical_length upsertRelay_canonical updateCanonicalManifest_def
      split: option.splits summary.splits)

lemma firstDifference_None:
  "firstDifference xs ys i = None
     \<longleftrightarrow> take (min (length xs) (length ys)) xs = take (min (length xs) (length ys)) ys"
  by (induction xs ys i rule: firstDifference.induct) auto

lemma statusOf_compareManifests:
  "needsSync (statusOf (compareManifests c m))
     = (hashesOf (manifestOf m) \<noteq> [] \<and> agreeUpToShorter (hashesOf (Some c)) (hashesOf (manifestOf m))
          \<and> length (hashesOf (manifestOf m)) < length (hashesOf (Some c)))"
  "needsRepair (statusOf (compareManifests c m))
     = (hashesOf (Some c) \<noteq> []
          \<and> (hashesOf (manifestOf m) = [] \<or> \<not> agreeUpToShorter (hashesOf (Some c)) (hashesOf (manifestOf m))))"
proof -
  let ?ch = "hashesOf (Some c)" and ?rh = "hashesOf (manifestOf m)"
  consider (a) "?ch = []" | (b) "?ch \<noteq> []" "?rh = []"
    | (c) i where "?ch \<noteq> []" "?rh \<noteq> []" "firstDifference ?ch ?rh 0 = Some i"
    | (d) "?ch \<noteq> []" "?rh \<noteq> []" "firstDifference ?ch ?rh 0 = None"
    by (cases "firstDifference ?ch ?rh 0") auto
  then have "needsSync (statusOf (compareManifests c m))
     = (?rh \<noteq> [] \<and> agreeUpToShorter ?ch ?rh \<and> length ?rh < length ?ch)
   \<and> needsRepair (statusOf (compareManifests c m))
     = (?ch \<noteq> [] \<and> (?rh = [] \<or> \<not> agreeUpToShorter ?ch ?rh))"
  proof cases
    case a
    then show ?thesis
      by (simp add: compareManifests_def statusOf_def noComparison_def truthyCount_def)
  next
    case b
    then show ?thesis
      by (simp add: compareManifests_def statusOf_def noComparison_def truthyCount_def)
  next
    case c
    then have "\<not> agreeUpToShorter ?ch ?rh"
      using firstDifference_None [of ?ch ?rh 0] by (simp add: agreeUpToShorter_def)
    with c show ?thesis
      by (simp add: compareManifests_def statusOf_def noComparison_def truthyCount_def)
  next
    case d
    then have "agreeUpToShorter ?ch ?rh"
      using firstDifference_None [of ?ch ?rh 0] by (simp add: agreeUpToShorter_def)
    with d show ?thesis
      by (simp add: compareManifests_def statusOf_def noComparison_def truthyCount_def)
  qed
  then show "needsSync (statusOf (compareManifests c m))
     = (?rh \<noteq> [] \<and> agreeUpToShorter ?ch ?rh \<and> length ?rh < length ?ch)"
    and "needsRepair (statusOf (compareManifests c m))
     = (?ch \<noteq> [] \<and> (?rh = [] \<or> \<not> agreeUpToShorter ?ch ?rh))"
    by blast+
qed

text \<open>
  C8, as stated, fails for a relay that reports an empty manifest while the canonical
  manifest is not empty: the hashes agree up to the shorter length (which is 0) and the
  relay's manifest is strictly shorter, yet \<open>needsSync\<close> is false and \<open>needsRepair\<close> is
  true.
\<close>

theorem upsertRelay_empty_manifest_counterexample:
  "(let r = fst (upsertRelay ''t1'' ''GEN'' sampleEmptyHeartbeat sampleDirectory);
        ch = hashesOf (Some (canonicalManifest
                (snd (upsertRelay ''t1'' ''GEN'' sampleEmptyHeartbeat sampleDirectory))));
        rh = hashesOf (manifestOf (chainSummary r))
    in agreeUpToShorter ch rh \<and> length rh < length ch
       \<and> syncStatus r = Some \<lparr> needsSync = False, needsRepair = True,
            details = \<lparr> matches = False, missing = Some [''h0''], divergeAt = None,
                        missingCount = None \<rparr> \<rparr>)"
  by (simp add: upsertRelay_def Let_def sampleEmptyHeartbeat_def sampleDirectory_def
      emptyRelay_def spread_def updateCanonicalManifest_def lengthOr0_def hashesOf_def
      manifestOf_def
      compareManifests_def statusOf_def noComparison_def truthyCount_def agreeUpToShorter_def)

text \<open>
  C8, amended. After \<open>upsertRelay\<close> the relay's \<open>syncStatus\<close> is set, against the
  canonical manifest after the update: \<open>needsSync\<close> holds exactly when the relay's
  manifest is not empty, its hashes equal the canonical ones up to the shorter length,
  and it is strictly shorter; \<open>needsRepair\<close> holds exactly when the canonical manifest is
  not empty and the relay's manifest is empty or absent, or differs from it within the
  shorter length; otherwise both flags are false.
\<close>

theorem upsertRelay_syncStatus_classification:
  "(let r = fst (upsertRelay now g p state);
        ch = hashesOf (Some (canonicalManifest (snd (upsertRelay now g p state))));
        rh = hashesOf (manifestOf (chainSummary r))
    in \<exists>st. syncStatus r = Some st
         \<and> needsSync st = (rh \<noteq> [] \<and> agreeUpToShorter ch rh \<and> length rh < length ch)
         \<and> needsRepair st = (ch \<noteq> [] \<and> (rh = [] \<or> \<not> agreeUpToShorter ch rh)))"
  by (simp add: Let_def upsertRelay_syncStatus statusOf_compareManifests)

theorem upsertRelay_syncStatus_classification_witness:
  "hashesOf (manifestOf (chainSummary (fst (upsertRelay ''t1'' ''GEN1'' sampleHeartbeat sampleLongDirectory))))
     = [''h0'']
   \<and> hashesOf (Some (canonicalManifest
         (snd (upsertRelay ''t1'' ''GEN1'' sampleHeartbeat sampleLongDirectory))))
     = [''h0'', ''h1'']
   \<and> (\<exists>st. syncStatus (fst (upsertRelay ''t1'' ''GEN1'' sampleHeartbeat sampleLongDirectory))
               = Some st
          \<and> needsSync st \<and> \<not> needsRepair st)"
proof -
  have r: "hashesOf (manifestOf (chainSummary
              (fst (upsertRelay ''t1'' ''GEN1'' sampleHeartbeat sampleLongDirectory)))) = [''h0'']"
    by (simp add: upsertRelay_def Let_def sampleHeartbeat_def sampleLongDirectory_def
        emptyRelay_def spread_def hashesOf_def manifestOf_def)
  have c: "hashesOf (Some (canonicalManifest
              (snd (upsertRelay ''t1'' ''GEN1'' sampleHeartbeat sampleLongDirectory))))
             = [''h0'', ''h1'']"
    by (simp add: upsertRelay_def Let_def sampleHeartbeat_def sampleLongDirectory_def
        emptyRelay_def spread_def hashesOf_def manifestOf_def updateCanonicalManifest_def
        lengthOr0_def)
  from upsertRelay_syncStatus_classification
         [of "''t1''" "''GEN1''" sampleHeartbeat sampleLongDirectory]
  show ?thesis
    by (simp add: Let_def r c agreeUpToShorter_def)
qed

lemma orElse_twice: "orElse a (orElse a b) = orElse a b"
  by (cases a) simp_all

lemma map_add_twice: "(m ++ n) ++ n = m ++ (n :: 'a \<rightharpoonup> 'b)"
  by (rule ext) (simp add: map_add_def split: option.splits)

lemma find_replaced:
  "\<exists>x\<in>set xs. k x = c \<Longrightarrow> k r = c \<Longrightarrow>
     find (\<lambda>x. k x = c) (map (\<lambda>x. if k x = c then r else x) xs) = Some r"
  by (induction xs) auto

lemma upsertRelay_found:
  assumes "find (\<lambda>r. onion r = onion p) (relays st) = Some e"
  shows "upsertRelay now g p st =
     (withStatus (canonicalManifest st) (merged now e p),
      \<lparr> relays = map (\<lambda>r. if onion r = onion p
                            then withStatus (canonicalManifest st) (merged now e p) else r)
                      (relays st),
        canonicalManifest = updateCanonicalManifest (canonicalManifest st)
                              (chainSummary (merged now e p)) \<rparr>)"
proof -
  have "onion e = onion p" using assms by (auto simp: find_Some_iff)
  then have "onion (merged now e p) = onion p"
    by (cases "onion p") (simp_all add: merged_def spread_def)
  then show ?thesis using assms
    by (simp add: upsertRelay_def Let_def withStatus_def merged_def)
qed

lemma upsertRelay_new:
  assumes "find (\<lambda>r. onion r = onion p) (relays st) = None"
  shows "upsertRelay now g p st =
     (withStatus (canonicalManifest st) (created now g p),
      \<lparr> relays = map (\<lambda>r. if onion r = onion p
                            then withStatus (canonicalManifest st) (created now g p) else r)
                      (relays st @ [created now g p]),
        canonicalManifest = updateCanonicalManifest (canonicalManifest st)
                              (chainSummary (created now g p)) \<rparr>)"
proof -
  have "onion (created now g p) = onion p"
    by (cases "onion p") (simp_all add: created_def spread_def emptyRelay_def)
  then show ?thesis using assms
    by (simp add: upsertRelay_def Let_def withStatus_def created_def)
qed


lemma map_add_same: "n ++ n = (n :: 'a \<rightharpoonup> 'b)"
  by (rule ext) (simp add: map_add_def split: option.splits)

lemma merged_of_merged:
  "withStatus (updateCanonicalManifest c (chainSummary (merged n1 e p)))
       (merged n2 (withStatus c (merged n1 e p)) p)
     = (withStatus c (merged n1 e p))\<lparr> lastSeen := Some n2 \<rparr>"
  by (simp add: withStatus_def merged_def spread_def objectOf_def orElse_twice map_add_twice
      updateCanonicalManifest_twice)

lemma merged_of_created:
  assumes "connectionMeta p \<noteq> None" "fingerprint p \<noteq> Some []"
  shows "withStatus (updateCanonicalManifest c (chainSummary (created n1 g p)))
       (merged n2 (withStatus c (created n1 g p)) p)
     = (withStatus c (created n1 g p))\<lparr> lastSeen := Some n2 \<rparr>"
proof -
  obtain m where m: "connectionMeta p = Some m" using assms(1) by blast
  have fp: "orElse (fingerprint p)
              (Some (case fingerprint p of None \<Rightarrow> g | Some f \<Rightarrow> if f = [] then g else f))
            = Some (case fingerprint p of None \<Rightarrow> g | Some f \<Rightarrow> if f = [] then g else f)"
    using assms(2) by (cases "fingerprint p") simp_all
  show ?thesis
    by (simp add: withStatus_def merged_def created_def spread_def emptyRelay_def objectOf_def
        orElse_twice map_add_same updateCanonicalManifest_twice m fp)
qed

text \<open>
  C9, as stated, fails on a first registration. A heartbeat without \<open>connectionMeta\<close>
  gives a record without that key, and the second call adds \<open>connectionMeta = {}\<close>; a
  heartbeat whose \<open>fingerprint\<close> is the empty string gets a generated fingerprint, and
  the second call overwrites it with the empty string.
\<close>

theorem upsertRelay_twice_counterexample:
  "connectionMeta (fst (upsertRelay ''t1'' ''GEN1'' sampleHeartbeat sampleDirectory)) = None
   \<and> connectionMeta (fst (upsertRelay ''t2'' ''GEN2'' sampleHeartbeat
         (snd (upsertRelay ''t1'' ''GEN1'' sampleHeartbeat sampleDirectory)))) = Some Map.empty
   \<and> fingerprint (fst (upsertRelay ''t1'' ''GEN1'' sampleBlankFingerprint sampleDirectory))
       = Some ''GEN1''
   \<and> fingerprint (fst (upsertRelay ''t2'' ''GEN2'' sampleBlankFingerprint
         (snd (upsertRelay ''t1'' ''GEN1'' sampleBlankFingerprint sampleDirectory)))) = Some []"
  by (simp add: upsertRelay_def Let_def sampleHeartbeat_def sampleBlankFingerprint_def
      sampleDirectory_def emptyRelay_def spread_def objectOf_def)

text \<open>
  C9, amended. When a record with the payload's onion is already in the registry, or
  the payload carries \<open>connectionMeta\<close> and its \<open>fingerprint\<close> is absent or not empty,
  applying \<open>upsertRelay(p)\<close> twice in succession returns a record equal to the one after
  the first application in every field except \<open>lastSeen\<close>, and the second call adds no
  record to the registry.
\<close>

theorem upsertRelay_idempotent_modulo_lastSeen:
  assumes "onion p \<in> set (map onion (relays s0))
           \<or> (connectionMeta p \<noteq> None \<and> fingerprint p \<noteq> Some [])"
  shows "fst (upsertRelay n2 g2 p (snd (upsertRelay n1 g1 p s0)))
           = (fst (upsertRelay n1 g1 p s0))\<lparr> lastSeen := Some n2 \<rparr>
       \<and> length (relays (snd (upsertRelay n2 g2 p (snd (upsertRelay n1 g1 p s0)))))
           = length (relays (snd (upsertRelay n1 g1 p s0)))"
proof (cases "find (\<lambda>r. onion r = onion p) (relays s0)")
  case (Some e)
  let ?c = "canonicalManifest s0"
  let ?r1 = "withStatus ?c (merged n1 e p)"
  let ?s1 = "snd (upsertRelay n1 g1 p s0)"
  have e: "e \<in> set (relays s0)" "onion e = onion p"
    using Some by (auto simp: find_Some_iff)
  have on: "onion ?r1 = onion p"
    using e(2) by (cases "onion p") (simp_all add: withStatus_def merged_def spread_def)
  have first: "upsertRelay n1 g1 p s0 =
      (?r1, \<lparr> relays = map (\<lambda>r. if onion r = onion p then ?r1 else r) (relays s0),
              canonicalManifest = updateCanonicalManifest ?c (chainSummary (merged n1 e p)) \<rparr>)"
    by (rule upsertRelay_found [OF Some])
  have found: "find (\<lambda>r. onion r = onion p) (relays ?s1) = Some ?r1"
    using find_replaced [of "relays s0" onion "onion p" ?r1] e on by (auto simp: first)
  show ?thesis
    by (simp add: upsertRelay_found [OF found]) (simp add: first merged_of_merged)
next
  case None
  let ?c = "canonicalManifest s0"
  let ?r1 = "withStatus ?c (created n1 g1 p)"
  let ?s1 = "snd (upsertRelay n1 g1 p s0)"
  have hyp: "connectionMeta p \<noteq> None" "fingerprint p \<noteq> Some []"
    using assms None by (auto simp: find_None_iff)
  have onc: "onion (created n1 g1 p) = onion p"
    by (cases "onion p") (simp_all add: created_def spread_def emptyRelay_def)
  then have on: "onion ?r1 = onion p" by (simp add: withStatus_def)
  have first: "upsertRelay n1 g1 p s0 =
      (?r1, \<lparr> relays = map (\<lambda>r. if onion r = onion p then ?r1 else r)
                           (relays s0 @ [created n1 g1 p]),
              canonicalManifest = updateCanonicalManifest ?c (chainSummary (created n1 g1 p)) \<rparr>)"
    by (rule upsertRelay_new [OF None])
  have found: "find (\<lambda>r. onion r = onion p) (relays ?s1) = Some ?r1"
    using find_replaced [of "relays s0 @ [created n1 g1 p]" onion "onion p" ?r1] onc on
    by (auto simp: first)
  show ?thesis
    by (simp add: upsertRelay_found [OF found])
       (simp add: first merged_of_created [OF hyp])
qed

theorem upsertRelay_idempotent_modulo_lastSeen_witness:
  "(onion sampleEmptyHeartbeat \<in> set (map onion (relays sampleRegistered))
      \<or> (connectionMeta sampleEmptyHeartbeat \<noteq> None
           \<and> fingerprint sampleEmptyHeartbeat \<noteq> Some []))
   \<and> fst (upsertRelay ''t2'' ''GEN2'' sampleEmptyHeartbeat
            (snd (upsertRelay ''t1'' ''GEN1'' sampleEmptyHeartbeat sampleRegistered)))
       = (fst (upsertRelay ''t1'' ''GEN1'' sampleEmptyHeartbeat sampleRegistered))
           \<lparr> lastSeen := Some ''t2'' \<rparr>
   \<and> length (relays (snd (upsertRelay ''t2'' ''GEN2'' sampleEmptyHeartbeat
            (snd (upsertRelay ''t1'' ''GEN1'' sampleEmptyHeartbeat sampleRegistered))))) = 1"
proof -
  have h: "onion sampleEmptyHeartbeat \<in> set (map onion (relays sampleRegistered))
      \<or> (connectionMeta sampleEmptyHeartbeat \<noteq> None
           \<and> fingerprint sampleEmptyHeartbeat \<noteq> Some [])"
    by (simp add: sampleRegistered_def)
  have n: "length (relays (snd (upsertRelay ''t1'' ''GEN1'' sampleEmptyHeartbeat
             sampleRegistered))) = 1"
    by (simp add: upsertRelay_def Let_def sampleRegistered_def)
  from upsertRelay_idempotent_modulo_lastSeen
         [OF h, of "''t2''" "''GEN2''" "''t1''" "''GEN1''"] h n
  show ?thesis by simp
qed

section \<open>Pipeline and sync engine theorems\<close>


lemma appendLetterBlock_nonempty:
  "blocks \<noteq> [] \<Longrightarrow>
     \<exists>b. appendLetterBlock H now lp fp m blocks = (Inr b, blocks @ [b])
       \<and> letters b = [\<lparr> ownerFingerprint = fp, payload = lp \<rparr>]"
  by (simp add: appendLetterBlock_def Let_def)

lemma sampleSubmitted_eq:
  "sampleSubmitted = sampleRelayState\<lparr> pendingQueue := [sampleEntry], queueDeferred := [''id1''],
                        processingQueue := True \<rparr>"
  "sampleStandaloneSubmitted = sampleStandalone\<lparr> pendingQueue := [sampleEntry],
                        queueDeferred := [''id1''], processingQueue := True \<rparr>"
  by (simp_all add: sampleSubmitted_def sampleStandaloneSubmitted_def acceptLetter_def
      processQueueSoon_def sampleEntry_def sampleRelayState_def sampleStandalone_def)




text \<open>
  C2, as stated, fails: on a relay without a directory the pre-write sync does not fail
  with a 503 error, the letter is appended on the first attempt and the entry leaves the
  queue.
\<close>

theorem no_directory_counterexample:
  "directoryUrl (config sampleStandaloneSubmitted) = None
   \<and> pendingQueue sampleStandaloneSubmitted = [sampleEntry]
   \<and> fst (ensureFreshChainBeforeWrite sampleHash exactArith sampleEnv sampleStandaloneSubmitted)
       = Inr (Skipped (Some ''No directory configured''))
   \<and> pendingQueue (drainStep sampleHash exactArith sampleEnv sampleStandaloneSubmitted) = []
   \<and> blockStore (drainStep sampleHash exactArith sampleEnv sampleStandaloneSubmitted)
       = [sampleGenesis, sampleBlock1]"
  by (simp add: sampleSubmitted_eq sampleStandalone_def sampleRelayState_def sampleEnv_def
      sampleEntry_def drainStep_def processQueueEntry_def ensureFreshChainBeforeWrite_def
      falsy_def sample_append reportToDirectory_def resolveQueueEntry_def)

text \<open>
  C2, amended. If the relay has no directory configured, the pre-write sync returns the
  skipped result with the reason "No directory configured" without raising an error and
  without changing the state; the entry at the head of the queue is processed: its block
  is appended to the ledger, which holds at least the genesis block, on that attempt,
  the entry leaves the queue, and its submitter, if one waits, is resolved with the block.
\<close>

theorem no_directory_write_proceeds:
  assumes nodir: "falsy (directoryUrl (config st))"
    and queue: "pendingQueue st = e # rest"
    and chain: "blockStore st \<noteq> []"
  shows "\<exists>b. ensureFreshChainBeforeWrite H A env st
               = (Inr (Skipped (Some ''No directory configured'')), st)
           \<and> fst (processQueueEntry H A env st) = Inr b
           \<and> letters b = [\<lparr> ownerFingerprint = entryFingerprint e, payload = letterPayload e \<rparr>]
           \<and> blockStore (drainStep H A env st) = blockStore st @ [b]
           \<and> pendingQueue (drainStep H A env st) = rest
           \<and> settled (drainStep H A env st)
               = (if entryId e \<in> set (queueDeferred st)
                  then settled st @ [(entryId e, Inr b)] else settled st)"
proof -
  let ?st0 = "st\<lparr> pendingQueue := e\<lparr> attempts := Suc (attempts e) \<rparr> # rest \<rparr>"
  have f: "ensureFreshChainBeforeWrite H A env st
             = (Inr (Skipped (Some ''No directory configured'')), st)"
    using nodir by (simp add: ensureFreshChainBeforeWrite_def)
  have f0: "ensureFreshChainBeforeWrite H A env ?st0
             = (Inr (Skipped (Some ''No directory configured'')), ?st0)"
    using nodir by (simp add: ensureFreshChainBeforeWrite_def)
  from appendLetterBlock_nonempty [OF chain]
  obtain b where b: "appendLetterBlock H (clock env) (letterPayload e) (entryFingerprint e)
                       (entryMetrics e) (blockStore st) = (Inr b, blockStore st @ [b])"
    and l: "letters b = [\<lparr> ownerFingerprint = entryFingerprint e, payload = letterPayload e \<rparr>]"
    by blast
  have p: "processQueueEntry H A env st = (Inr b, ?st0\<lparr> blockStore := blockStore st @ [b] \<rparr>)"
    using nodir by (simp add: processQueueEntry_def queue f0 b reportToDirectory_def)
  have d: "drainStep H A env st
             = resolveQueueEntry (entryId e) b
                 (?st0\<lparr> blockStore := blockStore st @ [b], pendingQueue := rest \<rparr>)"
    by (simp add: drainStep_def queue p)
  show ?thesis using f p l by (auto simp: d resolveQueueEntry_def)
qed

theorem no_directory_write_proceeds_witness:
  "falsy (directoryUrl (config sampleStandaloneSubmitted))
   \<and> pendingQueue sampleStandaloneSubmitted = [sampleEntry]
   \<and> blockStore sampleStandaloneSubmitted \<noteq> []
   \<and> ensureFreshChainBeforeWrite sampleHash exactArith sampleEnv sampleStandaloneSubmitted
       = (Inr (Skipped (Some ''No directory configured'')), sampleStandaloneSubmitted)
   \<and> length (blockStore (drainStep sampleHash exactArith sampleEnv sampleStandaloneSubmitted)) = 2
   \<and> pendingQueue (drainStep sampleHash exactArith sampleEnv sampleStandaloneSubmitted) = []"
proof -
  have h1: "falsy (directoryUrl (config sampleStandaloneSubmitted))"
    by (simp add: sampleSubmitted_eq sampleStandalone_def falsy_def)
  have h2: "pendingQueue sampleStandaloneSubmitted = sampleEntry # []"
    by (simp add: sampleSubmitted_eq)
  have h3: "blockStore sampleStandaloneSubmitted \<noteq> []"
    by (simp add: sampleSubmitted_eq sampleStandalone_def sampleRelayState_def)
  have n: "length (blockStore sampleStandaloneSubmitted) = 1"
    by (simp add: sampleSubmitted_eq sampleStandalone_def sampleRelayState_def)
  from no_directory_write_proceeds
         [OF h1 h2 h3, where H = sampleHash and A = exactArith and env = sampleEnv] h1 h2 h3 n
  show ?thesis by auto
qed

text \<open>
  C5, as stated, fails: \<open>validateChain\<close> rejects the empty chain and \<open>syncFromRemote\<close>
  throws "Remote chain invalid: Empty chain"; the sync engine, having fetched an empty
  block list from its peer, lets that error escape instead of reporting a skipped result.
\<close>

theorem syncFromRemote_empty_counterexample:
  "syncFromRemote sampleHash [] False [sampleGenesis]
     = (Inl (RemoteChainInvalid EmptyChain), [sampleGenesis])
   \<and> syncFromDirectory sampleHash exactArith sampleEmptyPeerEnv sampleRelayState
     = (Inl (RemoteChainInvalid EmptyChain), sampleRelayState)"
  by (simp add: syncFromRemote_def validateChain_def syncFromDirectory_def
      sampleEmptyPeerEnv_def sampleEnv_def sampleRelayState_def falsy_def selectBestRelay_def
      sampleRelayB_def emptyRelay_def detectChainConflict_def)

text \<open>
  C5, amended. \<open>syncFromRemote\<close> with an empty \<open>remoteBlocks\<close> list throws "Remote chain
  invalid: Empty chain", whatever \<open>force\<close> is, and leaves the local chain unchanged. When
  the sync engine has a directory, chooses an alternate relay that has a URL, and fetches
  an empty block list from it, \<open>syncFromDirectory\<close> throws the same error and leaves the
  relay state unchanged, and the pre-write sync turns it into an error with
  \<open>statusCode = 503\<close>.
\<close>

theorem syncFromRemote_empty_rejected:
  "syncFromRemote H [] force L = (Inl (RemoteChainInvalid EmptyChain), L)
   \<and> (\<not> falsy (directoryUrl (config st))
        \<and> selectBestRelay A (directoryRelays env) = Some peer
        \<and> onion peer \<noteq> configOnion (config st)
        \<and> \<not> falsy (orElse (publicUrl peer) (onion peer))
        \<and> remoteBlocks env = Some []
      \<longrightarrow> syncFromDirectory H A env st = (Inl (RemoteChainInvalid EmptyChain), st)
          \<and> ensureFreshChainBeforeWrite H A env st = (Inl SyncUnavailable, st))"
proof -
  have a: "syncFromRemote H [] force L = (Inl (RemoteChainInvalid EmptyChain), L)" for L force
    by (simp add: syncFromRemote_def validateChain_def)
  have b: "syncFromDirectory H A env st = (Inl (RemoteChainInvalid EmptyChain), st)"
    if "\<not> falsy (directoryUrl (config st))"
      "selectBestRelay A (directoryRelays env) = Some peer"
      "onion peer \<noteq> configOnion (config st)"
      "\<not> falsy (orElse (publicUrl peer) (onion peer))"
      "remoteBlocks env = Some []"
    using that by (simp add: syncFromDirectory_def detectChainConflict_def a)
  have c: "ensureFreshChainBeforeWrite H A env st = (Inl SyncUnavailable, st)"
    if "\<not> falsy (directoryUrl (config st))"
      "syncFromDirectory H A env st = (Inl (RemoteChainInvalid EmptyChain), st)"
    using that by (simp add: ensureFreshChainBeforeWrite_def)
  from a b c show ?thesis by blast
qed

lemma sample_peer:
  "selectBestRelay exactArith (directoryRelays sampleEmptyPeerEnv)
     = Some (sampleRelayB\<lparr> publicUrl := Some ''http://b.example'' \<rparr>)"
  by (simp add: selectBestRelay_def sampleEmptyPeerEnv_def sampleEnv_def)

theorem syncFromRemote_empty_rejected_witness:
  "\<not> falsy (directoryUrl (config sampleRelayState))
   \<and> selectBestRelay exactArith (directoryRelays sampleEmptyPeerEnv)
       = Some (sampleRelayB\<lparr> publicUrl := Some ''http://b.example'' \<rparr>)
   \<and> onion (sampleRelayB\<lparr> publicUrl := Some ''http://b.example'' \<rparr>)
       \<noteq> configOnion (config sampleRelayState)
   \<and> \<not> falsy (orElse (publicUrl (sampleRelayB\<lparr> publicUrl := Some ''http://b.example'' \<rparr>))
                  (onion (sampleRelayB\<lparr> publicUrl := Some ''http://b.example'' \<rparr>)))
   \<and> remoteBlocks sampleEmptyPeerEnv = Some []
   \<and> syncFromDirectory sampleHash exactArith sampleEmptyPeerEnv sampleRelayState
       = (Inl (RemoteChainInvalid EmptyChain), sampleRelayState)
   \<and> ensureFreshChainBeforeWrite sampleHash exactArith sampleEmptyPeerEnv sampleRelayState
       = (Inl SyncUnavailable, sampleRelayState)"
proof -
  have h: "\<not> falsy (directoryUrl (config sampleRelayState))
     \<and> onion (sampleRelayB\<lparr> publicUrl := Some ''http://b.example'' \<rparr>)
         \<noteq> configOnion (config sampleRelayState)
     \<and> \<not> falsy (orElse (publicUrl (sampleRelayB\<lparr> publicUrl := Some ''http://b.example'' \<rparr>))
                  (onion (sampleRelayB\<lparr> publicUrl := Some ''http://b.example'' \<rparr>)))
     \<and> remoteBlocks sampleEmptyPeerEnv = Some []"
    by (simp add: sampleRelayState_def sampleRelayB_def emptyRelay_def falsy_def
        sampleEmptyPeerEnv_def sampleEnv_def)
  from syncFromRemote_empty_rejected
         [where H = sampleHash and A = exactArith and force = False and L = "[]"
            and st = sampleRelayState and env = sampleEmptyPeerEnv
            and peer = "sampleRelayB\<lparr> publicUrl := Some ''http://b.example'' \<rparr>"]
       h sample_peer
  show ?thesis by blast
qed

end
